theory Spec2Isabelle
  imports Complex_Main
begin

section \<open>Numbers\<close>

text \<open>
  A number that the script receives, from the position request or from the parsed
  response, is a finite double, that is, a real number: coordinates are of type \<open>real\<close>.
  What the script computes from them it computes in the double arithmetic of the
  engine, whose results are rounded and can be NaN, and whose \<^verbatim>\<open>Math\<close> functions are
  approximations chosen by the engine. That arithmetic is not fixed here: the computed
  numbers have a type \<open>'n\<close> of their own, and the operations on them are a parameter of
  the model, the record \<open>platform\<close> below.
\<close>

text \<open>An entry of \<^verbatim>\<open>results\<close>, script.js lines 101-106.\<close>

record 'n hotel =
  h_name :: string
  h_lat :: real
  h_lon :: real
  h_distanceKm :: 'n

text \<open>
  The engine: \<open>js_num x\<close> is the double that holds the received number or the literal
  \<open>x\<close>; \<open>js_add\<close>, \<open>js_sub\<close>, \<open>js_mul\<close>, \<open>js_div\<close>, \<open>js_pow\<close> are \<^verbatim>\<open>+\<close>, \<^verbatim>\<open>-\<close>, \<^verbatim>\<open>*\<close>, \<^verbatim>\<open>/\<close>,
  \<^verbatim>\<open>**\<close>; \<open>js_sin\<close>, \<open>js_cos\<close>, \<open>js_sqrt\<close>, \<open>js_atan2\<close>, \<open>js_PI\<close> are \<^verbatim>\<open>Math.sin\<close>,
  \<^verbatim>\<open>Math.cos\<close>, \<^verbatim>\<open>Math.sqrt\<close>, \<^verbatim>\<open>Math.atan2\<close>, \<^verbatim>\<open>Math.PI\<close>; \<open>js_sort cmp xs\<close> is the array
  after \<^verbatim>\<open>xs.sort(cmp)\<close>.
\<close>

record 'n platform =
  js_num :: "real \<Rightarrow> 'n"
  js_add :: "'n \<Rightarrow> 'n \<Rightarrow> 'n"
  js_sub :: "'n \<Rightarrow> 'n \<Rightarrow> 'n"
  js_mul :: "'n \<Rightarrow> 'n \<Rightarrow> 'n"
  js_div :: "'n \<Rightarrow> 'n \<Rightarrow> 'n"
  js_pow :: "'n \<Rightarrow> 'n \<Rightarrow> 'n"
  js_sin :: "'n \<Rightarrow> 'n"
  js_cos :: "'n \<Rightarrow> 'n"
  js_sqrt :: "'n \<Rightarrow> 'n"
  js_atan2 :: "'n \<Rightarrow> 'n \<Rightarrow> 'n"
  js_PI :: 'n
  js_sort :: "('n hotel \<Rightarrow> 'n hotel \<Rightarrow> 'n) \<Rightarrow> 'n hotel list \<Rightarrow> 'n hotel list"

text \<open>\<^verbatim>\<open>distanceKm(lat1, lon1, lat2, lon2)\<close>, script.js lines 43-54.\<close>

definition distanceKm :: "'n platform \<Rightarrow> 'n \<Rightarrow> 'n \<Rightarrow> 'n \<Rightarrow> 'n \<Rightarrow> 'n" where
  "distanceKm M lat1 lon1 lat2 lon2 =
     (let R = js_num M 6371;
          dLat = js_div M (js_mul M (js_sub M lat2 lat1) (js_PI M)) (js_num M 180);
          dLon = js_div M (js_mul M (js_sub M lon2 lon1) (js_PI M)) (js_num M 180);
          a = js_add M
                (js_pow M (js_sin M (js_div M dLat (js_num M 2))) (js_num M 2))
                (js_mul M
                   (js_mul M
                      (js_cos M (js_div M (js_mul M lat1 (js_PI M)) (js_num M 180)))
                      (js_cos M (js_div M (js_mul M lat2 (js_PI M)) (js_num M 180))))
                   (js_pow M (js_sin M (js_div M dLon (js_num M 2))) (js_num M 2)));
          c = js_mul M (js_num M 2)
                (js_atan2 M (js_sqrt M a) (js_sqrt M (js_sub M (js_num M 1) a)))
      in js_mul M R c)"

section \<open>The response of the map-data service\<close>

text \<open>
  An object of the element list has a \<^verbatim>\<open>type\<close>, optional \<^verbatim>\<open>lat\<close> and \<^verbatim>\<open>lon\<close>, an optional
  \<^verbatim>\<open>center\<close> object with optional \<^verbatim>\<open>lat\<close> and \<^verbatim>\<open>lon\<close>, and an optional \<^verbatim>\<open>tags\<close> object from
  keys to strings. An absent property is \<open>None\<close>.
\<close>

record center =
  center_lat :: "real option"
  center_lon :: "real option"

record element =
  el_type :: string
  el_lat :: "real option"
  el_lon :: "real option"
  el_center :: "center option"
  el_tags :: "(string \<rightharpoonup> string) option"

text \<open>
  An entry of the element list: \<^verbatim>\<open>null\<close>; a boolean, a number, a string or an array, none
  of which has a property \<^verbatim>\<open>type\<close> or \<^verbatim>\<open>center\<close>; or an object.
\<close>

datatype item = ItemNull | ItemOther | ItemObject element

text \<open>
  What \<^verbatim>\<open>data.elements\<close> is: absent or falsy (\<^verbatim>\<open>undefined\<close>, \<^verbatim>\<open>null\<close>, \<^verbatim>\<open>false\<close>, 0, the
  empty string), for which the script takes \<^verbatim>\<open>[]\<close>; an array (a non-empty string is
  iterated as its characters, entries without properties); or a truthy value that
  cannot be iterated (\<^verbatim>\<open>true\<close>, a number that is not 0, an object).
\<close>

datatype elements_value = Absent | Array "item list" | NotIterable

text \<open>
  The body of a response: \<^verbatim>\<open>res.json()\<close> rejects (the body is empty or is not JSON), or it
  yields \<^verbatim>\<open>data\<close>, which is \<^verbatim>\<open>null\<close> or a value of which the script reads \<^verbatim>\<open>data.elements\<close>.
\<close>

datatype body = Unparseable | JsonNull | Json elements_value

text \<open>
  How \<^verbatim>\<open>fetch(url)\<close> settles: it rejects (no connection), or it resolves with a response
  that has the flag \<^verbatim>\<open>res.ok\<close> and a body.
\<close>

datatype fetch_outcome = Rejected | Response bool body

section \<open>Truthiness\<close>

text \<open>
  JavaScript's \<^verbatim>\<open>&&\<close> and \<^verbatim>\<open>?:\<close> test truthiness: \<^verbatim>\<open>undefined\<close>, the number 0 and the empty
  string are falsy; every other number and string is truthy.
\<close>

definition truthy_num :: "real option \<Rightarrow> bool" where
  "truthy_num v = (case v of None \<Rightarrow> False | Some x \<Rightarrow> x \<noteq> 0)"

definition truthy_str :: "string option \<Rightarrow> bool" where
  "truthy_str v = (case v of None \<Rightarrow> False | Some x \<Rightarrow> x \<noteq> [])"

section \<open>Parsing the elements\<close>

text \<open>
  The coordinate of an element, script.js lines 82-92: \<open>None\<close> is the \<^verbatim>\<open>continue\<close> branch.
\<close>

definition resolve :: "element \<Rightarrow> (real \<times> real) option" where
  "resolve el =
     (if el_type el = ''node'' \<and> truthy_num (el_lat el) \<and> truthy_num (el_lon el)
      then Some (the (el_lat el), the (el_lon el))
      else (case el_center el of
              None \<Rightarrow> None
            | Some c \<Rightarrow>
                if truthy_num (center_lat c) \<and> truthy_num (center_lon c)
                then Some (the (center_lat c), the (center_lon c))
                else None))"

definition placeholder :: string where
  "placeholder = ''Unnamed hotel (OpenStreetMap)''"

text \<open>The name of an element, script.js lines 94-97.\<close>

definition display_name :: "element \<Rightarrow> string" where
  "display_name el =
     (case el_tags el of
        None \<Rightarrow> placeholder
      | Some tags \<Rightarrow> if truthy_str (tags ''name'') then the (tags ''name'') else placeholder)"

text \<open>The object pushed for an element with coordinate \<open>(hLat, hLon)\<close>, lines 94-106.\<close>

definition entry :: "'n platform \<Rightarrow> real \<Rightarrow> real \<Rightarrow> element \<Rightarrow> real \<Rightarrow> real \<Rightarrow> 'n hotel" where
  "entry M lat lon el hLat hLon =
     \<lparr>h_name = display_name el, h_lat = hLat, h_lon = hLon,
      h_distanceKm = distanceKm M (js_num M lat) (js_num M lon) (js_num M hLat) (js_num M hLon)\<rparr>"

text \<open>What the \<^verbatim>\<open>try\<close> block of \<^verbatim>\<open>fetchHotels\<close> can throw.\<close>

datatype error = FetchFailed | OverpassError | SyntaxError | TypeError

text \<open>
  The loop over the elements, script.js lines 81-107, with \<^verbatim>\<open>results\<close> as accumulator.
  Reading \<^verbatim>\<open>el.type\<close> of \<^verbatim>\<open>null\<close> throws; \<open>Inl\<close> is the exception.
\<close>

fun collect ::
  "'n platform \<Rightarrow> real \<Rightarrow> real \<Rightarrow> item list \<Rightarrow> 'n hotel list \<Rightarrow> error + 'n hotel list" where
  "collect M lat lon [] results = Inr results"
| "collect M lat lon (ItemNull # its) results = Inl TypeError"
| "collect M lat lon (ItemOther # its) results = collect M lat lon its results"
| "collect M lat lon (ItemObject el # its) results =
     (case resolve el of
        None \<Rightarrow> collect M lat lon its results
      | Some (hLat, hLon) \<Rightarrow>
          collect M lat lon its (results @ [entry M lat lon el hLat hLon]))"

text \<open>
  The array \<^verbatim>\<open>results\<close> after \<^verbatim>\<open>results.sort((a, b) => a.distanceKm - b.distanceKm)\<close>,
  script.js line 116.
\<close>

definition sorted_results :: "'n platform \<Rightarrow> 'n hotel list \<Rightarrow> 'n hotel list" where
  "sorted_results M results =
     js_sort M (\<lambda>a b. js_sub M (h_distanceKm a) (h_distanceKm b)) results"

section \<open>The page\<close>

text \<open>
  The texts written to the status element:
  \<^item> \<open>Waiting\<close>: ``Waiting for search...'';
  \<^item> \<open>GettingLocation\<close>: ``Getting your location...'';
  \<^item> \<open>Searching\<close>: ``Searching for hotels nearby...'';
  \<^item> \<open>Found n m\<close>: ``Found n places, showing closest m.'';
  \<^item> \<open>NoHotels\<close>: ``No hotels found nearby. Try moving outside / closer to main road.'';
  \<^item> \<open>ContactError\<close>: ``Error contacting map server. Check internet and try again.'';
  \<^item> \<open>LocationDenied\<close>: ``Location permission denied or unavailable. Please enable
    location and try again.'';
  \<^item> \<open>NotSupported\<close>: ``Geolocation not supported on this device.''
\<close>

datatype status_text =
  Waiting | GettingLocation | Searching | Found nat nat | NoHotels | ContactError
  | LocationDenied | NotSupported

text \<open>
  A card of the list view, script.js lines 136-155: the name, the distance that
  \<^verbatim>\<open>toFixed(2)\<close> prints, and the coordinate that the button opens.
\<close>

record 'n card =
  card_name :: string
  card_distance :: 'n
  card_query :: "real \<times> real"

text \<open>A marker of the result layer, script.js lines 165-167.\<close>

record 'n marker =
  marker_at :: "real \<times> real"
  marker_name :: string
  marker_distance :: 'n

text \<open>
  What is outstanding: nothing, the position request, or the network request of
  \<^verbatim>\<open>fetchHotels(lat, lon)\<close>.
\<close>

datatype pending = Idle | AwaitingLocation | AwaitingFetch real real

text \<open>
  The state of the page: the status text, the children of the list view, the
  \<^verbatim>\<open>disabled\<close> flag of the button, the variables \<^verbatim>\<open>map\<close> (its centre; \<open>None\<close> is
  \<^verbatim>\<open>undefined\<close>), \<^verbatim>\<open>userMarker\<close> and \<^verbatim>\<open>hotelsLayer\<close> (its markers), the coordinates of the
  network queries issued so far, and what is outstanding.
\<close>

record 'n page =
  status :: status_text
  hotelsList :: "'n card list"
  disabled :: bool
  map_view :: "(real \<times> real) option"
  userMarker :: "(real \<times> real) option"
  hotelsLayer :: "'n marker list option"
  queries :: "(real \<times> real) list"
  pending :: pending

text \<open>\<^verbatim>\<open>initMap(lat, lon)\<close>, script.js lines 18-41.\<close>

definition initMap :: "real \<Rightarrow> real \<Rightarrow> 'n page \<Rightarrow> 'n page" where
  "initMap lat lon s =
     s\<lparr>map_view := Some (lat, lon),
       userMarker := Some (lat, lon),
       hotelsLayer := (case hotelsLayer s of Some ms \<Rightarrow> Some [] | None \<Rightarrow> Some [])\<rparr>"

text \<open>\<^verbatim>\<open>renderHotels(hotels)\<close>, script.js lines 132-157.\<close>

definition card_of :: "'n hotel \<Rightarrow> 'n card" where
  "card_of h =
     \<lparr>card_name = h_name h, card_distance = h_distanceKm h,
      card_query = (h_lat h, h_lon h)\<rparr>"

definition renderHotels :: "'n hotel list \<Rightarrow> 'n page \<Rightarrow> 'n page" where
  "renderHotels hotels s = s\<lparr>hotelsList := map card_of hotels\<rparr>"

text \<open>\<^verbatim>\<open>plotHotelsOnMap(hotels)\<close>, script.js lines 159-169.\<close>

definition marker_of :: "'n hotel \<Rightarrow> 'n marker" where
  "marker_of h =
     \<lparr>marker_at = (h_lat h, h_lon h), marker_name = h_name h,
      marker_distance = h_distanceKm h\<rparr>"

definition plotHotelsOnMap :: "'n hotel list \<Rightarrow> 'n page \<Rightarrow> 'n page" where
  "plotHotelsOnMap hotels s =
     (case hotelsLayer s of
        None \<Rightarrow> s
      | Some ms \<Rightarrow> s\<lparr>hotelsLayer := Some (map marker_of hotels)\<rparr>)"

section \<open>The search\<close>

text \<open>
  Script.js lines 75-107: the response is awaited and checked, the body parsed, and the
  elements collected. \<open>Inl\<close> is an exception: a rejected request, the error thrown for a
  response that is not ok, the rejection of \<^verbatim>\<open>res.json()\<close>, and the type errors of reading
  \<^verbatim>\<open>data.elements\<close> when \<^verbatim>\<open>data\<close> is \<^verbatim>\<open>null\<close>, of iterating a value that cannot be iterated,
  and of reading \<^verbatim>\<open>el.type\<close> when \<^verbatim>\<open>el\<close> is \<^verbatim>\<open>null\<close>.
\<close>

definition parsed_results ::
  "'n platform \<Rightarrow> real \<Rightarrow> real \<Rightarrow> fetch_outcome \<Rightarrow> error + 'n hotel list" where
  "parsed_results M lat lon out =
     (case out of
        Rejected \<Rightarrow> Inl FetchFailed
      | Response ok b \<Rightarrow>
          if \<not> ok then Inl OverpassError
          else (case b of
                  Unparseable \<Rightarrow> Inl SyntaxError
                | JsonNull \<Rightarrow> Inl TypeError
                | Json elements \<Rightarrow>
                    (case elements of
                       Absent \<Rightarrow> collect M lat lon [] []
                     | Array its \<Rightarrow> collect M lat lon its []
                     | NotIterable \<Rightarrow> Inl TypeError)))"

text \<open>
  The \<^verbatim>\<open>try\<close> block, script.js lines 74-123; \<open>top\<close> is \<^verbatim>\<open>results.slice(0, 6)\<close> of the sorted
  array.
\<close>

definition try_block ::
  "'n platform \<Rightarrow> real \<Rightarrow> real \<Rightarrow> fetch_outcome \<Rightarrow> 'n page \<Rightarrow> error + 'n page" where
  "try_block M lat lon out s =
     (case parsed_results M lat lon out of
        Inl err \<Rightarrow> Inl err
      | Inr results \<Rightarrow>
          if length results = 0
          then Inr (s\<lparr>status := NoHotels, hotelsList := []\<rparr>)
          else (let sorted = sorted_results M results;
                    top = take 6 sorted
                in Inr ((plotHotelsOnMap top (renderHotels top s))
                           \<lparr>status := Found (length sorted) (length top)\<rparr>)))"

text \<open>
  \<^verbatim>\<open>fetchHotels(lat, lon)\<close> up to its first \<^verbatim>\<open>await\<close>, script.js lines 57-75: the status is
  set and the query is sent.
\<close>

definition fetchHotels_start :: "real \<Rightarrow> real \<Rightarrow> 'n page \<Rightarrow> 'n page" where
  "fetchHotels_start lat lon s =
     s\<lparr>status := Searching, queries := queries s @ [(lat, lon)],
       pending := AwaitingFetch lat lon\<rparr>"

text \<open>
  \<^verbatim>\<open>fetchHotels(lat, lon)\<close> once the request has settled, script.js lines 75-129: the
  \<^verbatim>\<open>try\<close> block and its \<^verbatim>\<open>catch\<close>.
\<close>

definition fetchHotels_settle ::
  "'n platform \<Rightarrow> real \<Rightarrow> real \<Rightarrow> fetch_outcome \<Rightarrow> 'n page \<Rightarrow> 'n page" where
  "fetchHotels_settle M lat lon out s =
     (case try_block M lat lon out s of
        Inr s' \<Rightarrow> s'
      | Inl err \<Rightarrow> s\<lparr>status := ContactError, hotelsList := []\<rparr>)"

text \<open>
  \<^verbatim>\<open>getLocationAndSearch()\<close>, script.js lines 171-201, up to the position request;
  \<open>supported\<close> is \<^verbatim>\<open>navigator.geolocation\<close>.
\<close>

definition getLocationAndSearch :: "bool \<Rightarrow> 'n page \<Rightarrow> 'n page" where
  "getLocationAndSearch supported s =
     (if \<not> supported then s\<lparr>status := NotSupported\<rparr>
      else s\<lparr>status := GettingLocation, disabled := True, pending := AwaitingLocation\<rparr>)"

text \<open>The success callback of the position request, script.js lines 181-189.\<close>

definition on_position :: "real \<Rightarrow> real \<Rightarrow> 'n page \<Rightarrow> 'n page" where
  "on_position lat lon s = fetchHotels_start lat lon (initMap lat lon s)"

text \<open>The error callback of the position request, script.js lines 190-195.\<close>

definition on_position_error :: "'n page \<Rightarrow> 'n page" where
  "on_position_error s = s\<lparr>status := LocationDenied, disabled := False, pending := Idle\<rparr>"

text \<open>
  The settled request: the rest of \<^verbatim>\<open>fetchHotels\<close>, then the \<^verbatim>\<open>finally\<close> callback,
  script.js lines 186-188.
\<close>

definition on_settled ::
  "'n platform \<Rightarrow> real \<Rightarrow> real \<Rightarrow> fetch_outcome \<Rightarrow> 'n page \<Rightarrow> 'n page" where
  "on_settled M lat lon out s =
     (fetchHotels_settle M lat lon out s)\<lparr>disabled := False, pending := Idle\<rparr>"

text \<open>
  The events of the page. A disabled button delivers no click; a callback runs only
  for the request that is outstanding.
\<close>

datatype event = Click bool | Position real real | PositionError | Settled fetch_outcome

fun handle :: "'n platform \<Rightarrow> 'n page \<Rightarrow> event \<Rightarrow> 'n page" where
  "handle M s (Click supported) =
     (if disabled s then s else getLocationAndSearch supported s)"
| "handle M s (Position lat lon) =
     (case pending s of AwaitingLocation \<Rightarrow> on_position lat lon s | _ \<Rightarrow> s)"
| "handle M s PositionError =
     (case pending s of AwaitingLocation \<Rightarrow> on_position_error s | _ \<Rightarrow> s)"
| "handle M s (Settled out) =
     (case pending s of AwaitingFetch lat lon \<Rightarrow> on_settled M lat lon out s | _ \<Rightarrow> s)"

text \<open>
  The page after the script has loaded, script.js lines 14-16 and 203-205. The script
  never touches the button before the first click: it starts enabled.
\<close>

definition initial :: "'n page" where
  "initial =
     \<lparr>status = Waiting, hotelsList = [], disabled = False, map_view = None,
      userMarker = None, hotelsLayer = None, queries = [], pending = Idle\<rparr>"

definition run :: "'n platform \<Rightarrow> event list \<Rightarrow> 'n page" where
  "run M evs = foldl (handle M) initial evs"

section \<open>The coordinate of a candidate, as the specification has it\<close>

text \<open>
  This definition follows the words of the specification, not the script: a candidate
  has a resolvable coordinate when it is a point feature with its own lat/lon, or when
  it has a centre with lat/lon. It is compared with \<open>resolve\<close> below.
\<close>

definition spec_resolvable :: "element \<Rightarrow> bool" where
  "spec_resolvable el =
     ((el_type el = ''node'' \<and> el_lat el \<noteq> None \<and> el_lon el \<noteq> None)
      \<or> (case el_center el of
            None \<Rightarrow> False
          | Some c \<Rightarrow> center_lat c \<noteq> None \<and> center_lon c \<noteq> None))"

section \<open>Concrete responses\<close>

text \<open>
  The elements of the scenario ``user at (0,0); candidates at (0,0) named A, at (0,1)
  unnamed, at (1,0) named C'', as point features of the response.
\<close>

definition scenario_A :: element where
  "scenario_A =
     \<lparr>el_type = ''node'', el_lat = Some 0, el_lon = Some 0, el_center = None,
      el_tags = Some [''name'' \<mapsto> ''A'']\<rparr>"

definition scenario_unnamed :: element where
  "scenario_unnamed =
     \<lparr>el_type = ''node'', el_lat = Some 0, el_lon = Some 1, el_center = None,
      el_tags = None\<rparr>"

definition scenario_C :: element where
  "scenario_C =
     \<lparr>el_type = ''node'', el_lat = Some 1, el_lon = Some 0, el_center = None,
      el_tags = Some [''name'' \<mapsto> ''C'']\<rparr>"

text \<open>A hotel on the equator, as a point feature with its own coordinate and a name.\<close>

definition equator_node :: element where
  "equator_node =
     \<lparr>el_type = ''node'', el_lat = Some 0, el_lon = Some 32.58, el_center = None,
      el_tags = Some [''name'' \<mapsto> ''Equator Hotel'']\<rparr>"

text \<open>A point feature at \<open>(k, k)\<close> with no tags, and a feature given by its parts.\<close>

definition node_at :: "real \<Rightarrow> element" where
  "node_at k =
     \<lparr>el_type = ''node'', el_lat = Some k, el_lon = Some k, el_center = None,
      el_tags = None\<rparr>"

definition feature ::
  "string \<Rightarrow> real option \<Rightarrow> real option \<Rightarrow> center option \<Rightarrow> element" where
  "feature t la lo c =
     \<lparr>el_type = t, el_lat = la, el_lon = lo, el_center = c, el_tags = None\<rparr>"

text \<open>A point feature whose name tag is the empty string.\<close>

definition empty_name_node :: element where
  "empty_name_node =
     \<lparr>el_type = ''node'', el_lat = Some 1, el_lon = Some 1, el_center = None,
      el_tags = Some [''name'' \<mapsto> []]\<rparr>"

section \<open>An engine for the examples\<close>

text \<open>
  The theorems below that have an engine \<open>M\<close> hold for every engine. Where a statement
  is evaluated at a concrete input, the engine is \<open>exact\<close>: exact real arithmetic, which
  never rounds, and a stable insertion sort. It is not the double arithmetic of a
  browser; the statements evaluated with it say nothing about a computed distance.
\<close>

definition atan2 :: "real \<Rightarrow> real \<Rightarrow> real" where
  "atan2 y x =
     (if 0 < x then arctan (y / x)
      else if x < 0 then (if 0 \<le> y then arctan (y / x) + pi else arctan (y / x) - pi)
      else if 0 < y then pi / 2
      else if y < 0 then - (pi / 2)
      else 0)"

fun insert_by :: "('a \<Rightarrow> 'a \<Rightarrow> real) \<Rightarrow> 'a \<Rightarrow> 'a list \<Rightarrow> 'a list" where
  "insert_by cmp x [] = [x]"
| "insert_by cmp x (y # ys) =
     (if cmp x y \<le> 0 then x # y # ys else y # insert_by cmp x ys)"

definition stable_sort_by :: "('a \<Rightarrow> 'a \<Rightarrow> real) \<Rightarrow> 'a list \<Rightarrow> 'a list" where
  "stable_sort_by cmp xs = foldr (insert_by cmp) xs []"

definition exact :: "real platform" where
  "exact =
     \<lparr>js_num = (\<lambda>x. x), js_add = (+), js_sub = (-), js_mul = (*), js_div = (/),
      js_pow = (\<lambda>x y. if y = 2 then x * x else x powr y),
      js_sin = sin, js_cos = cos, js_sqrt = sqrt, js_atan2 = atan2, js_PI = pi,
      js_sort = stable_sort_by\<rparr>"

section \<open>Coordinates and names of the elements\<close>



text \<open>
  C2. A point feature uses its own lat/lon; an area feature uses its centre when
  present; a feature without a usable coordinate is skipped. The script breaks the first
  part for a point feature on the equator (or on the prime meridian): the presence test
  \<^verbatim>\<open>el.lat && el.lon\<close> is false for the number 0, so the feature \<open>equator_node\<close>, which
  has its own latitude 0 and longitude 32.58, gets no coordinate, is not collected, and
  a search that returns only this feature ends with the text for no hotels.
\<close>

theorem equator_node_skipped:
  "el_type equator_node = ''node''
   \<and> el_lat equator_node = Some 0
   \<and> el_lon equator_node = Some 32.58
   \<and> resolve equator_node = None
   \<and> collect M 0.3 32.5 [ItemObject equator_node] [] = Inr []
   \<and> status (run M [Click True, Position 0.3 32.5,
        Settled (Response True (Json (Array [ItemObject equator_node])))]) = NoHotels
   \<and> hotelsList (run M [Click True, Position 0.3 32.5,
        Settled (Response True (Json (Array [ItemObject equator_node])))]) = []"
  by (simp add: equator_node_def resolve_def truthy_num_def run_def initial_def
      getLocationAndSearch_def on_position_def initMap_def fetchHotels_start_def on_settled_def
      fetchHotels_settle_def try_block_def parsed_results_def)

text \<open>
  C1. The ranked output is sorted by distance, ties keep their original order, and its
  length is the smaller of 6 and the number of candidates with a resolvable coordinate.
  The script breaks the length clause, through the presence test of C2: the response
  that holds only \<open>equator_node\<close> has one candidate with a resolvable coordinate, a point
  feature with its own lat/lon, and the ranked output shown for it is empty, of length 0
  and not 1.
\<close>

theorem equator_candidate_not_ranked:
  "spec_resolvable equator_node
   \<and> length (filter spec_resolvable [equator_node]) = 1
   \<and> hotelsList (run M [Click True, Position 0.3 32.5,
        Settled (Response True (Json (Array [ItemObject equator_node])))]) = []
   \<and> length (hotelsList (run M [Click True, Position 0.3 32.5,
        Settled (Response True (Json (Array [ItemObject equator_node])))]))
      \<noteq> min 6 (length (filter spec_resolvable [equator_node]))"
  by (simp add: spec_resolvable_def equator_node_def resolve_def truthy_num_def run_def
      initial_def getLocationAndSearch_def on_position_def initMap_def fetchHotels_start_def
      on_settled_def fetchHotels_settle_def try_block_def parsed_results_def)

text \<open>
  C3. With the user at (0,0) and the point candidates A at (0,0), an unnamed one at
  (0,1) and C at (1,0) in the response, three entries are ranked. The script ranks none,
  through the presence test of C2: every candidate has a latitude or a longitude equal
  to 0, none is collected, and the search ends with the text for no hotels and an empty
  list view.
\<close>

theorem scenario_search_shows_nothing:
  "collect M 0 0 [ItemObject scenario_A, ItemObject scenario_unnamed, ItemObject scenario_C] []
     = Inr []
   \<and> status (run M [Click True, Position 0 0,
        Settled (Response True (Json (Array
          [ItemObject scenario_A, ItemObject scenario_unnamed, ItemObject scenario_C])))])
       = NoHotels
   \<and> hotelsList (run M [Click True, Position 0 0,
        Settled (Response True (Json (Array
          [ItemObject scenario_A, ItemObject scenario_unnamed, ItemObject scenario_C])))])
       = []"
  by (simp add: scenario_A_def scenario_unnamed_def scenario_C_def resolve_def truthy_num_def
      run_def initial_def getLocationAndSearch_def on_position_def initMap_def
      fetchHotels_start_def on_settled_def fetchHotels_settle_def try_block_def
      parsed_results_def)

text \<open>
  C9. A node whose own latitude or longitude is absent or 0 takes the centre branch:
  when its centre has a latitude and a longitude that are both present and not 0, the
  node is collected at that coordinate; otherwise nothing is collected for it.
\<close>

theorem node_without_own_coordinate_uses_center:
  assumes "el_type el = ''node''"
    and "el_lat el = None \<or> el_lat el = Some 0 \<or> el_lon el = None \<or> el_lon el = Some 0"
  shows "(\<forall>c a b. el_center el = Some c \<and> center_lat c = Some a \<and> center_lon c = Some b
              \<and> a \<noteq> 0 \<and> b \<noteq> 0
            \<longrightarrow> resolve el = Some (a, b)
                \<and> collect M lat lon (ItemObject el # its) acc
                    = collect M lat lon its (acc @ [entry M lat lon el a b]))
       \<and> (\<not> (\<exists>c a b. el_center el = Some c \<and> center_lat c = Some a \<and> center_lon c = Some b
                 \<and> a \<noteq> 0 \<and> b \<noteq> 0)
            \<longrightarrow> resolve el = None
                \<and> collect M lat lon (ItemObject el # its) acc = collect M lat lon its acc)"
proof -
  from assms(2) have own: "\<not> (truthy_num (el_lat el) \<and> truthy_num (el_lon el))"
    by (auto simp: truthy_num_def)
  show ?thesis
  proof (cases "el_center el")
    case None
    with own show ?thesis by (simp add: resolve_def)
  next
    case (Some c)
    with own show ?thesis
      by (auto simp: resolve_def truthy_num_def split: option.splits)
  qed
qed

text \<open>
  C9 at two nodes with latitude 0: one with the centre \<open>(2, 3)\<close>, collected there, and
  one without a centre, not collected.
\<close>

theorem node_without_own_coordinate_uses_center_witness:
  "resolve (feature ''node'' (Some 0) (Some 5) (Some \<lparr>center_lat = Some 2, center_lon = Some 3\<rparr>))
     = Some (2, 3)
   \<and> collect exact 1 1
        [ItemObject
           (feature ''node'' (Some 0) (Some 5) (Some \<lparr>center_lat = Some 2, center_lon = Some 3\<rparr>))]
        []
     = Inr [entry exact 1 1
          (feature ''node'' (Some 0) (Some 5) (Some \<lparr>center_lat = Some 2, center_lon = Some 3\<rparr>))
          2 3]
   \<and> resolve (feature ''node'' (Some 0) (Some 5) None) = None
   \<and> collect exact 1 1 [ItemObject (feature ''node'' (Some 0) (Some 5) None)] [] = Inr []"
  using node_without_own_coordinate_uses_center
      [of "feature ''node'' (Some 0) (Some 5) (Some \<lparr>center_lat = Some 2, center_lon = Some 3\<rparr>)"
          exact 1 1 "[]" "[]"]
    node_without_own_coordinate_uses_center
      [of "feature ''node'' (Some 0) (Some 5) None" exact 1 1 "[]" "[]"]
  by (simp add: feature_def)

lemma display_name_cases:
  "display_name el =
     (case el_tags el of
        None \<Rightarrow> placeholder
      | Some t \<Rightarrow> (case t ''name'' of
                    None \<Rightarrow> placeholder
                  | Some n \<Rightarrow> if n = [] then placeholder else n))"
  by (simp add: display_name_def truthy_str_def split: option.splits)

text \<open>
  C8, as stated, fails at a feature whose name tag is the empty string: the name test
  \<^verbatim>\<open>el.tags && el.tags.name\<close> is false for it, and the feature is shown under the
  placeholder and not under its tag.
\<close>

theorem empty_name_shows_placeholder:
  "el_tags empty_name_node = Some [''name'' \<mapsto> []]
   \<and> display_name empty_name_node = placeholder
   \<and> display_name empty_name_node \<noteq> []
   \<and> map card_name
        (hotelsList (fetchHotels_settle exact 0 0
           (Response True (Json (Array [ItemObject empty_name_node]))) initial))
       = [''Unnamed hotel (OpenStreetMap)'']"
  by (simp add: empty_name_node_def display_name_def truthy_str_def placeholder_def
      fetchHotels_settle_def try_block_def parsed_results_def resolve_def truthy_num_def
      sorted_results_def exact_def stable_sort_by_def entry_def renderHotels_def plotHotelsOnMap_def
      initial_def card_of_def)

text \<open>
  C8, amended. A candidate whose feature has no tags, no name tag, or an empty name tag
  is named by the placeholder ``Unnamed hotel (OpenStreetMap)''; a candidate with a
  non-empty name tag is named by that tag. The card and the marker of a candidate show
  this name.
\<close>

theorem name_or_placeholder:
  "(el_tags el = None \<longrightarrow> display_name el = placeholder)
   \<and> (\<forall>t. el_tags el = Some t \<and> (t ''name'' = None \<or> t ''name'' = Some [])
          \<longrightarrow> display_name el = placeholder)
   \<and> (\<forall>t n. el_tags el = Some t \<and> t ''name'' = Some n \<and> n \<noteq> [] \<longrightarrow> display_name el = n)
   \<and> h_name (entry M lat lon el hLat hLon) = display_name el
   \<and> card_name (card_of (entry M lat lon el hLat hLon)) = display_name el
   \<and> marker_name (marker_of (entry M lat lon el hLat hLon)) = display_name el
   \<and> placeholder = ''Unnamed hotel (OpenStreetMap)''"
  by (auto simp: display_name_cases entry_def card_of_def marker_of_def placeholder_def)

text \<open>
  C8 amended, at the three features of the scenario and at the feature with the empty
  name.
\<close>

theorem name_or_placeholder_witness:
  "display_name scenario_unnamed = ''Unnamed hotel (OpenStreetMap)''
   \<and> display_name empty_name_node = ''Unnamed hotel (OpenStreetMap)''
   \<and> display_name scenario_A = ''A''
   \<and> card_name (card_of (entry exact 0 0 scenario_C 1 0)) = ''C''"
proof -
  have p: "placeholder = ''Unnamed hotel (OpenStreetMap)''"
    using name_or_placeholder [of scenario_unnamed exact 0 0 0 1] by (rule conjE) simp
  have u: "display_name scenario_unnamed = placeholder"
    using name_or_placeholder [of scenario_unnamed exact 0 0 0 1]
    by (simp add: scenario_unnamed_def)
  have e: "display_name empty_name_node = placeholder"
    using name_or_placeholder [of empty_name_node exact 0 0 1 1]
    by (simp add: empty_name_node_def)
  have a: "display_name scenario_A = ''A''"
    using name_or_placeholder [of scenario_A exact 0 0 0 0] by (simp add: scenario_A_def)
  have c: "card_name (card_of (entry exact 0 0 scenario_C 1 0)) = ''C''"
    using name_or_placeholder [of scenario_C exact 0 0 1 0] by (simp add: scenario_C_def)
  from p u e a c show ?thesis by simp
qed

section \<open>The outcome of a search\<close>

lemma run_Nil: "run M [] = initial"
  by (simp add: run_def)

lemma run_snoc: "run M (evs @ [e]) = handle M (run M evs) e"
  by (simp add: run_def)

lemma settle_failure:
  "parsed_results M lat lon out = Inl err \<Longrightarrow>
   fetchHotels_settle M lat lon out s = s\<lparr>status := ContactError, hotelsList := []\<rparr>"
  by (simp add: fetchHotels_settle_def try_block_def)

lemma settle_empty:
  "parsed_results M lat lon out = Inr [] \<Longrightarrow>
   fetchHotels_settle M lat lon out s = s\<lparr>status := NoHotels, hotelsList := []\<rparr>"
  by (simp add: fetchHotels_settle_def try_block_def)

lemma initMap_fields:
  "hotelsLayer (initMap lat lon s) = Some []"
  "queries (initMap lat lon s) = queries s"
  "disabled (initMap lat lon s) = disabled s"
  "pending (initMap lat lon s) = pending s"
  by (simp_all add: initMap_def split: option.splits)

text \<open>
  C7. When the request fails or the response has a non-success status, the search
  ends: the status shows the text for a network error, the list view is empty, the
  result layer is as it was, and the button is enabled again.
\<close>

theorem network_failure_reported:
  assumes "out = Rejected \<or> (\<exists>b. out = Response False b)"
  shows "status (fetchHotels_settle M lat lon out s) = ContactError
       \<and> hotelsList (fetchHotels_settle M lat lon out s) = []
       \<and> hotelsLayer (fetchHotels_settle M lat lon out s) = hotelsLayer s
       \<and> on_settled M lat lon out s
           = s\<lparr>status := ContactError, hotelsList := [], disabled := False, pending := Idle\<rparr>"
proof -
  from assms obtain err where "parsed_results M lat lon out = Inl err"
    by (auto simp: parsed_results_def)
  then show ?thesis
    by (simp add: settle_failure on_settled_def)
qed

text \<open>
  C7 at a rejected request and at a response with a non-success status whose body holds
  a candidate, after a search that had filled the list view.
\<close>

theorem network_failure_reported_witness:
  "hotelsList (run exact [Click True, Position 1 1,
      Settled (Response True (Json (Array [ItemObject (node_at 2)])))]) \<noteq> []
   \<and> status (fetchHotels_settle exact 1 1 Rejected
        (run exact [Click True, Position 1 1,
           Settled (Response True (Json (Array [ItemObject (node_at 2)])))]))
      = ContactError
   \<and> hotelsList (fetchHotels_settle exact 1 1 Rejected
        (run exact [Click True, Position 1 1,
           Settled (Response True (Json (Array [ItemObject (node_at 2)])))]))
      = []
   \<and> status (fetchHotels_settle exact 1 1
        (Response False (Json (Array [ItemObject (node_at 2)]))) initial)
      = ContactError
   \<and> hotelsList (fetchHotels_settle exact 1 1
        (Response False (Json (Array [ItemObject (node_at 2)]))) initial) = []"
proof -
  have "hotelsList (run exact [Click True, Position 1 1,
      Settled (Response True (Json (Array [ItemObject (node_at 2)])))]) \<noteq> []"
    by (simp add: run_def initial_def getLocationAndSearch_def on_position_def initMap_def
        fetchHotels_start_def on_settled_def fetchHotels_settle_def try_block_def
        parsed_results_def node_at_def resolve_def truthy_num_def sorted_results_def exact_def
        stable_sort_by_def renderHotels_def plotHotelsOnMap_def)
  with network_failure_reported [of Rejected exact 1 1
      "run exact [Click True, Position 1 1,
         Settled (Response True (Json (Array [ItemObject (node_at 2)])))]"]
    network_failure_reported
      [of "Response False (Json (Array [ItemObject (node_at 2)]))" exact 1 1 initial]
  show ?thesis by simp
qed




section \<open>The button and the result layer\<close>

lemma run_invariant:
  "(disabled (run M evs) \<longleftrightarrow> pending (run M evs) \<noteq> Idle)
   \<and> (\<forall>lat lon. pending (run M evs) = AwaitingFetch lat lon \<longrightarrow> hotelsLayer (run M evs) = Some [])"
proof (induction evs rule: rev_induct)
  case Nil
  show ?case by (simp add: run_Nil initial_def)
next
  case (snoc e evs)
  show ?case
  proof (cases e)
    case (Click supported)
    with snoc show ?thesis
      by (auto simp: run_snoc getLocationAndSearch_def)
  next
    case (Position lat lon)
    with snoc show ?thesis
      by (cases "pending (run M evs)")
         (simp_all add: run_snoc on_position_def fetchHotels_start_def initMap_fields)
  next
    case PositionError
    with snoc show ?thesis
      by (cases "pending (run M evs)") (simp_all add: run_snoc on_position_error_def)
  next
    case (Settled out)
    with snoc show ?thesis
      by (cases "pending (run M evs)") (simp_all add: run_snoc on_settled_def)
  qed
qed

text \<open>
  C6. After any sequence of events, the button is disabled exactly while the position
  request or the network request is outstanding. When the position request fails, the
  button is enabled, the status shows the text for a denied location, and no network
  query has been added. When the network request settles, whatever its outcome, the
  button is enabled. A click without the location capability leaves the button enabled
  and sends no query.
\<close>

theorem control_disabled_while_pending:
  "(disabled (run M evs) \<longleftrightarrow> pending (run M evs) \<noteq> Idle)
   \<and> (pending (run M evs) = AwaitingLocation \<longrightarrow>
        \<not> disabled (handle M (run M evs) PositionError)
        \<and> pending (handle M (run M evs) PositionError) = Idle
        \<and> status (handle M (run M evs) PositionError) = LocationDenied
        \<and> queries (handle M (run M evs) PositionError) = queries (run M evs))
   \<and> (\<forall>lat lon out. pending (run M evs) = AwaitingFetch lat lon \<longrightarrow>
        \<not> disabled (handle M (run M evs) (Settled out))
        \<and> pending (handle M (run M evs) (Settled out)) = Idle)
   \<and> (\<not> disabled (run M evs) \<longrightarrow>
        \<not> disabled (handle M (run M evs) (Click False))
        \<and> status (handle M (run M evs) (Click False)) = NotSupported
        \<and> queries (handle M (run M evs) (Click False)) = queries (run M evs))"
  using run_invariant [of M evs]
  by (auto simp: on_position_error_def on_settled_def getLocationAndSearch_def)

text \<open>
  C6 after a click, where the position request is outstanding and then fails, and after
  a position, where the network request is outstanding and then is rejected.
\<close>

theorem control_disabled_while_pending_witness:
  "pending (run exact [Click True]) = AwaitingLocation
   \<and> disabled (run exact [Click True])
   \<and> \<not> disabled (handle exact (run exact [Click True]) PositionError)
   \<and> status (handle exact (run exact [Click True]) PositionError) = LocationDenied
   \<and> queries (handle exact (run exact [Click True]) PositionError) = []
   \<and> pending (run exact [Click True, Position 1 2]) = AwaitingFetch 1 2
   \<and> disabled (run exact [Click True, Position 1 2])
   \<and> \<not> disabled (handle exact (run exact [Click True, Position 1 2]) (Settled Rejected))"
proof -
  have a: "pending (run exact [Click True]) = AwaitingLocation"
    by (simp add: run_def initial_def getLocationAndSearch_def)
  have b: "pending (run exact [Click True, Position 1 2]) = AwaitingFetch 1 2"
    by (simp add: run_def initial_def getLocationAndSearch_def on_position_def
        fetchHotels_start_def initMap_def)
  have q: "queries (run exact [Click True]) = []"
    by (simp add: run_def initial_def getLocationAndSearch_def)
  from a b q control_disabled_while_pending [of exact "[Click True]"]
    control_disabled_while_pending [of exact "[Click True, Position 1 2]"]
  show ?thesis by simp
qed

text \<open>
  C10. In every search, the first one included, the success callback of the position
  request empties the result layer in \<^verbatim>\<open>initMap\<close>, without sending a query, and only then
  sends the query of the search. While the network request is outstanding the result
  layer is empty, and it is still empty after a search that ends in a network error or
  without candidates.
\<close>

theorem result_layer_empty_during_search:
  "(pending (run M evs) = AwaitingLocation \<longrightarrow>
      hotelsLayer (initMap lat lon (run M evs)) = Some []
      \<and> queries (initMap lat lon (run M evs)) = queries (run M evs)
      \<and> handle M (run M evs) (Position lat lon)
          = fetchHotels_start lat lon (initMap lat lon (run M evs))
      \<and> queries (handle M (run M evs) (Position lat lon)) = queries (run M evs) @ [(lat, lon)])
   \<and> (pending (run M evs) = AwaitingFetch lat lon \<longrightarrow>
      hotelsLayer (run M evs) = Some []
      \<and> (\<forall>out. (\<exists>err. parsed_results M lat lon out = Inl err)
                \<or> parsed_results M lat lon out = Inr []
            \<longrightarrow> hotelsLayer (handle M (run M evs) (Settled out)) = Some []))"
  using run_invariant [of M evs]
  by (auto simp: on_position_def fetchHotels_start_def initMap_fields on_settled_def
      settle_failure settle_empty)

text \<open>
  C10 at a second search: the first search leaves one marker on the result layer; the
  second search starts with an empty layer and ends with an empty layer, both when its
  request is rejected and when its response holds no element.
\<close>

theorem result_layer_empty_during_search_witness:
  "map marker_name (the (hotelsLayer
      (run exact [Click True, Position 1 1,
            Settled (Response True (Json (Array [ItemObject (node_at 2)]))),
            Click True]))) = [placeholder]
   \<and> hotelsLayer
      (run exact [Click True, Position 1 1,
            Settled (Response True (Json (Array [ItemObject (node_at 2)]))),
            Click True, Position 1 1]) = Some []
   \<and> hotelsLayer
      (run exact [Click True, Position 1 1,
            Settled (Response True (Json (Array [ItemObject (node_at 2)]))),
            Click True, Position 1 1, Settled Rejected]) = Some []
   \<and> hotelsLayer
      (run exact [Click True, Position 1 1,
            Settled (Response True (Json (Array [ItemObject (node_at 2)]))),
            Click True, Position 1 1, Settled (Response True (Json (Array [])))]) = Some []"
proof -
  let ?first = "[Click True, Position 1 1,
      Settled (Response True (Json (Array [ItemObject (node_at 2)]))), Click True]"
  have first: "pending (run exact ?first) = AwaitingLocation
      \<and> map marker_name (the (hotelsLayer (run exact ?first))) = [placeholder]"
    by (simp add: run_def initial_def getLocationAndSearch_def on_position_def initMap_def
        fetchHotels_start_def on_settled_def fetchHotels_settle_def try_block_def
        parsed_results_def node_at_def resolve_def truthy_num_def sorted_results_def exact_def
        stable_sort_by_def renderHotels_def plotHotelsOnMap_def marker_of_def entry_def
        display_name_def)
  have snoc1: "run exact (?first @ [Position 1 1]) = handle exact (run exact ?first) (Position 1 1)"
    by (rule run_snoc)
  have second: "pending (run exact (?first @ [Position 1 1])) = AwaitingFetch 1 1"
    using first by (simp only: snoc1) (simp add: on_position_def fetchHotels_start_def)
  have outs: "parsed_results exact 1 1 Rejected = Inl FetchFailed"
    "parsed_results exact 1 1 (Response True (Json (Array []))) = Inr []"
    by (simp_all add: parsed_results_def)
  have snoc2: "run exact ((?first @ [Position 1 1]) @ [Settled out])
      = handle exact (run exact (?first @ [Position 1 1])) (Settled out)" for out
    by (rule run_snoc)
  from first second outs
    result_layer_empty_during_search [of exact ?first 1 1]
    result_layer_empty_during_search [of exact "?first @ [Position 1 1]" 1 1]
    snoc2 [of Rejected] snoc2 [of "Response True (Json (Array []))"]
  show ?thesis by simp
qed

end
